theory Spec2Isabelle
  imports Complex_Main
begin

section \<open>Numbers\<close>

text \<open>
  The program computes with Python floats and numpy float64 values. Finite values are
  modelled as exact reals: rounding, overflow and underflow are not part of the model,
  and the two signed zeros are one value (a zero divisor is read as +0.0). What IEEE
  arithmetic does where the reals have no answer is written out: division by zero and
  the logarithm of zero give an infinity, undefined operations give NaN, and neither
  raises an exception (numpy only emits a RuntimeWarning).
\<close>

datatype npfloat = Finite real | PosInf | NegInf | NaN

datatype error = ValueError string | KeyError string

text \<open>The infinity with the sign of \<open>s\<close>; NaN when there is no sign.\<close>

definition signed_inf :: "real \<Rightarrow> npfloat" where
  "signed_inf s = (if 0 < s then PosInf else if s < 0 then NegInf else NaN)"

fun sign_of :: "npfloat \<Rightarrow> real" where
  "sign_of (Finite a) = sgn a"
| "sign_of PosInf = 1"
| "sign_of NegInf = - 1"
| "sign_of NaN = 0"

fun np_neg :: "npfloat \<Rightarrow> npfloat" where
  "np_neg (Finite a) = Finite (- a)"
| "np_neg PosInf = NegInf"
| "np_neg NegInf = PosInf"
| "np_neg NaN = NaN"

fun np_log :: "npfloat \<Rightarrow> npfloat" where
  "np_log (Finite a) = (if 0 < a then Finite (ln a) else if a = 0 then NegInf else NaN)"
| "np_log PosInf = PosInf"
| "np_log NegInf = NaN"
| "np_log NaN = NaN"

fun np_exp :: "npfloat \<Rightarrow> npfloat" where
  "np_exp (Finite a) = Finite (exp a)"
| "np_exp PosInf = PosInf"
| "np_exp NegInf = Finite 0"
| "np_exp NaN = NaN"

fun np_sqrt :: "npfloat \<Rightarrow> npfloat" where
  "np_sqrt (Finite a) = (if 0 \<le> a then Finite (sqrt a) else NaN)"
| "np_sqrt PosInf = PosInf"
| "np_sqrt NegInf = NaN"
| "np_sqrt NaN = NaN"

fun np_mul :: "npfloat \<Rightarrow> npfloat \<Rightarrow> npfloat" where
  "np_mul (Finite a) (Finite b) = Finite (a * b)"
| "np_mul NaN y = NaN"
| "np_mul x NaN = NaN"
| "np_mul x y = signed_inf (sign_of x * sign_of y)"

fun np_div :: "npfloat \<Rightarrow> npfloat \<Rightarrow> npfloat" where
  "np_div (Finite a) (Finite b) = (if b = 0 then signed_inf a else Finite (a / b))"
| "np_div NaN y = NaN"
| "np_div x NaN = NaN"
| "np_div (Finite a) y = Finite 0"
| "np_div x (Finite b) = (if b < 0 then np_neg x else x)"
| "np_div x y = NaN"

fun np_sub :: "npfloat \<Rightarrow> npfloat \<Rightarrow> npfloat" where
  "np_sub (Finite a) (Finite b) = Finite (a - b)"
| "np_sub NaN y = NaN"
| "np_sub x NaN = NaN"
| "np_sub (Finite a) y = np_neg y"
| "np_sub x (Finite b) = x"
| "np_sub PosInf NegInf = PosInf"
| "np_sub NegInf PosInf = NegInf"
| "np_sub x y = NaN"

text \<open>Comparisons: every comparison with NaN is false.\<close>

fun np_le :: "npfloat \<Rightarrow> npfloat \<Rightarrow> bool" where
  "np_le (Finite a) (Finite b) = (a \<le> b)"
| "np_le NaN y = False"
| "np_le x NaN = False"
| "np_le NegInf y = True"
| "np_le x PosInf = True"
| "np_le x y = False"

fun np_gt :: "npfloat \<Rightarrow> npfloat \<Rightarrow> bool" where
  "np_gt (Finite a) (Finite b) = (b < a)"
| "np_gt NaN y = False"
| "np_gt x NaN = False"
| "np_gt PosInf PosInf = False"
| "np_gt PosInf y = True"
| "np_gt x NegInf = (x \<noteq> NegInf)"
| "np_gt x y = False"

section \<open>Utility and physics functions\<close>

text \<open>\<open>linear_mu_from_mass\<close>: \<open>mu_lin = mu_mass * density\<close>.\<close>

definition linear_mu_from_mass :: "real \<Rightarrow> real \<Rightarrow> real" where
  "linear_mu_from_mass mu_mass density = mu_mass * density"

text \<open>\<open>transmission_exponential\<close>: \<open>np.exp(-mu_lin * thickness)\<close>.\<close>

definition transmission_exponential :: "npfloat \<Rightarrow> npfloat \<Rightarrow> npfloat" where
  "transmission_exponential mu_lin thickness = np_exp (np_mul (np_neg mu_lin) thickness)"

text \<open>
  \<open>required_thickness_for_target\<close>: the guard on the target comes first, then
  \<open>-np.log(target_fraction) / mu_lin\<close>. There is no guard on \<open>mu_lin\<close>.
\<close>

definition required_thickness_for_target :: "npfloat \<Rightarrow> npfloat \<Rightarrow> error + npfloat" where
  "required_thickness_for_target mu_lin target_fraction =
     (if np_le target_fraction (Finite 0)
      then Inl (ValueError ''target_fraction must be > 0'')
      else Inr (np_div (np_neg (np_log target_fraction)) mu_lin))"

section \<open>Monte Carlo validator\<close>

text \<open>
  The random source is a parameter: \<open>rand seed i\<close> is the \<open>i\<close>-th uniform variate that
  the generator delivers after \<open>np.random.seed(seed)\<close> (or from its current state when
  the seed is \<open>None\<close>). \<open>np.random.seed\<close> refuses an integer outside 32 bits and
  \<open>np.random.random\<close> refuses a negative size.
\<close>

definition np_random_seed :: "int \<Rightarrow> error + unit" where
  "np_random_seed seed =
     (if 0 \<le> seed \<and> seed < 2 ^ 32 then Inr ()
      else Inl (ValueError ''Seed must be between 0 and 2**32 - 1''))"

definition np_random_random :: "(nat \<Rightarrow> real) \<Rightarrow> int \<Rightarrow> error + real list" where
  "np_random_random stream N =
     (if N < 0 then Inl (ValueError ''negative dimensions are not allowed'')
      else Inr (map stream [0..<nat N]))"

definition mc_transmission ::
  "(int option \<Rightarrow> nat \<Rightarrow> real) \<Rightarrow> real \<Rightarrow> real \<Rightarrow> int \<Rightarrow> int option \<Rightarrow> error + (npfloat \<times> npfloat)" where
  "mc_transmission rand mu_lin thickness N seed =
     (case (case seed of None \<Rightarrow> Inr () | Some sd \<Rightarrow> np_random_seed sd) of
        Inl e \<Rightarrow> Inl e
      | Inr _ \<Rightarrow>
         (case np_random_random (rand seed) N of
            Inl e \<Rightarrow> Inl e
          | Inr U \<Rightarrow>
             (let s = map (\<lambda>u. np_div (np_neg (np_log (Finite u))) (Finite mu_lin)) U;
                  transmitted =
                    np_div (Finite (real (length (filter (\<lambda>x. np_gt x (Finite thickness)) s))))
                           (Finite (real_of_int N));
                  se = np_sqrt (np_div (np_mul transmitted (np_sub (Finite 1) transmitted))
                                       (Finite (real_of_int N)))
              in Inr (transmitted, se))))"

text \<open>A generator that always delivers one half, for concrete runs.\<close>

definition half_stream :: "int option \<Rightarrow> nat \<Rightarrow> real" where
  "half_stream seed i = 1 / 2"

section \<open>Materials\<close>

text \<open>
  A material is a dict from keys to numbers (the entry \<open>'name'\<close> holds a string and is
  never read by the functions below, so it is left out). \<open>mat[key]\<close> raises KeyError on
  a missing key; \<open>mat.get(key, default)\<close> does not.
\<close>

type_synonym material = "string \<rightharpoonup> real"

definition dict_item :: "material \<Rightarrow> string \<Rightarrow> error + real" where
  "dict_item mat key = (case mat key of None \<Rightarrow> Inl (KeyError key) | Some v \<Rightarrow> Inr v)"

definition dict_get :: "material \<Rightarrow> string \<Rightarrow> real \<Rightarrow> real" where
  "dict_get mat key dflt = (case mat key of None \<Rightarrow> dflt | Some v \<Rightarrow> v)"

text \<open>
  The entries of the table \<open>materials\<close>, as the table writes them. The loop after the
  table adds to each the key \<open>'mu_lin'\<close> with the value \<open>mu_mass * density\<close>, which is
  the value both solvers derive when the key is absent.
\<close>

definition lead :: material where
  "lead = [''density'' \<mapsto> 11.34, ''mu_mass'' \<mapsto> 0.044]"

definition concrete :: material where
  "concrete = [''density'' \<mapsto> 2.3, ''mu_mass'' \<mapsto> 0.035]"

definition water :: material where
  "water = [''density'' \<mapsto> 1.0, ''mu_mass'' \<mapsto> 0.034]"

section \<open>Single-material solver\<close>

definition single_material_solution ::
  "material \<Rightarrow> real \<Rightarrow> error + (npfloat \<times> npfloat \<times> npfloat)" where
  "single_material_solution material target_fraction =
     (case (case material ''mu_lin'' of
              Some m \<Rightarrow> Inr m
            | None \<Rightarrow>
               (case (material ''mu_mass'', material ''density'') of
                  (Some mm, Some d) \<Rightarrow> Inr (linear_mu_from_mass mm d)
                | _ \<Rightarrow> Inl (ValueError ''Material must include mu_lin or (mu_mass and density)''))) of
        Inl e \<Rightarrow> Inl e
      | Inr mu_lin \<Rightarrow>
         (case required_thickness_for_target (Finite mu_lin) (Finite target_fraction) of
            Inl e \<Rightarrow> Inl e
          | Inr thickness \<Rightarrow>
             (let areal_density = np_mul (Finite (dict_get material ''density'' 1)) thickness
              in Inr (thickness, areal_density,
                      transmission_exponential (Finite mu_lin) thickness))))"

section \<open>Two-material brute-force optimizer\<close>

record design =
  t1_cm :: real
  t2_cm :: real
  areal_density_g_per_cm2 :: real
  transmission :: real

text \<open>The inner function \<open>mu_lin_from\<close>: it indexes the dict, so a missing key is a KeyError.\<close>

definition mu_lin_from :: "material \<Rightarrow> error + real" where
  "mu_lin_from mat =
     (if mat ''mu_lin'' \<noteq> None then dict_item mat ''mu_lin''
      else (case dict_item mat ''mu_mass'' of
              Inl e \<Rightarrow> Inl e
            | Inr mm \<Rightarrow>
               (case dict_item mat ''density'' of
                  Inl e \<Rightarrow> Inl e
                | Inr d \<Rightarrow> Inr (linear_mu_from_mass mm d))))"

text \<open>
  \<open>np.linspace(start, stop, num)\<close> with the endpoint included, as numpy computes it:
  \<open>arange(num) * step + start\<close> with \<open>step = (stop - start) / (num - 1)\<close>, the last
  sample then overwritten with \<open>stop\<close>; one sample is \<open>start\<close>, none is the empty array,
  a negative count is refused.
\<close>

definition linspace :: "real \<Rightarrow> real \<Rightarrow> int \<Rightarrow> error + real list" where
  "linspace start stop num =
     (if num < 0 then Inl (ValueError ''Number of samples must be non-negative'')
      else
        (let n = nat num;
             delta = stop - start;
             y = (if 0 < num - 1
                  then map (\<lambda>i. real i * (delta / real_of_int (num - 1)) + start) [0..<n]
                  else map (\<lambda>i. real i * delta + start) [0..<n])
         in Inr (if 1 < num then y[n - 1 := stop] else y)))"

text \<open>Boolean-mask indexing \<open>xs[mask]\<close> and \<open>np.any\<close>.\<close>

definition mask_select :: "'a list \<Rightarrow> bool list \<Rightarrow> 'a list" where
  "mask_select xs msk = map fst (filter snd (zip xs msk))"

definition np_any :: "bool list \<Rightarrow> bool" where
  "np_any msk = (True \<in> set msk)"

text \<open>\<open>np.argmin\<close>: the index of the first occurrence of the minimum; an empty array is refused.\<close>

fun argmin_list :: "real list \<Rightarrow> nat" where
  "argmin_list [] = 0"
| "argmin_list [x] = 0"
| "argmin_list (x # y # ys) =
     (let i = argmin_list (y # ys) in if x \<le> (y # ys) ! i then 0 else Suc i)"

definition np_argmin :: "real list \<Rightarrow> error + nat" where
  "np_argmin xs =
     (if xs = [] then Inl (ValueError ''attempt to get argmin of an empty sequence'')
      else Inr (argmin_list xs))"

text \<open>
  The body of the loop for one \<open>t1\<close>: \<open>None\<close> is the \<open>continue\<close> of a row without a
  feasible \<open>t2\<close>, otherwise the row's best combination.
\<close>

definition row_best ::
  "real \<Rightarrow> real \<Rightarrow> real \<Rightarrow> real \<Rightarrow> real \<Rightarrow> real list \<Rightarrow> real \<Rightarrow> error + design option" where
  "row_best mu1 mu2 rho1 rho2 target_fraction t2_vals t1 =
     (let trans1 = exp (- mu1 * t1);
          trans2 = map (\<lambda>t2. exp (- mu2 * t2)) t2_vals;
          total_trans = map (\<lambda>x. trans1 * x) trans2;
          mask_ok = map (\<lambda>x. x \<le> target_fraction) total_trans
      in if \<not> np_any mask_ok then Inr None
         else
           (let areal = map (\<lambda>t2. rho1 * t1 + rho2 * t2) t2_vals;
                areal_ok = mask_select areal mask_ok;
                t2_ok = mask_select t2_vals mask_ok;
                trans_ok = mask_select total_trans mask_ok
            in case np_argmin areal_ok of
                 Inl e \<Rightarrow> Inl e
               | Inr idx \<Rightarrow>
                  Inr (Some \<lparr>t1_cm = t1, t2_cm = t2_ok ! idx,
                             areal_density_g_per_cm2 = areal_ok ! idx,
                             transmission = trans_ok ! idx\<rparr>)))"

text \<open>
  The loop over \<open>t1_vals\<close>, with the two variables \<open>best\<close> and \<open>best_details\<close> as its
  state: a row replaces them when there is no best yet or its areal density is strictly
  smaller.
\<close>

fun grid_search ::
  "real \<Rightarrow> real \<Rightarrow> real \<Rightarrow> real \<Rightarrow> real \<Rightarrow> real list \<Rightarrow> real list \<Rightarrow>
   real option \<times> design option \<Rightarrow> error + (real option \<times> design option)" where
  "grid_search mu1 mu2 rho1 rho2 target_fraction t2_vals [] st = Inr st"
| "grid_search mu1 mu2 rho1 rho2 target_fraction t2_vals (t1 # rest) st =
     (case row_best mu1 mu2 rho1 rho2 target_fraction t2_vals t1 of
        Inl e \<Rightarrow> Inl e
      | Inr None \<Rightarrow> grid_search mu1 mu2 rho1 rho2 target_fraction t2_vals rest st
      | Inr (Some d) \<Rightarrow>
         grid_search mu1 mu2 rho1 rho2 target_fraction t2_vals rest
           (case fst st of
              None \<Rightarrow> (Some (areal_density_g_per_cm2 d), Some d)
            | Some best \<Rightarrow>
               if areal_density_g_per_cm2 d < best
               then (Some (areal_density_g_per_cm2 d), Some d) else st))"

definition optimize_two_materials ::
  "material \<Rightarrow> material \<Rightarrow> real \<Rightarrow> real \<Rightarrow> real \<Rightarrow> int \<Rightarrow> int \<Rightarrow> error + design option" where
  "optimize_two_materials mat1 mat2 target_fraction max_thickness1 max_thickness2 steps1 steps2 =
     (case mu_lin_from mat1 of
        Inl e \<Rightarrow> Inl e
      | Inr mu1 \<Rightarrow>
     (case mu_lin_from mat2 of
        Inl e \<Rightarrow> Inl e
      | Inr mu2 \<Rightarrow>
     (let rho1 = dict_get mat1 ''density'' 1;
          rho2 = dict_get mat2 ''density'' 1
      in
     (case linspace 0 max_thickness1 steps1 of
        Inl e \<Rightarrow> Inl e
      | Inr t1_vals \<Rightarrow>
     (case linspace 0 max_thickness2 steps2 of
        Inl e \<Rightarrow> Inl e
      | Inr t2_vals \<Rightarrow>
     (case grid_search mu1 mu2 rho1 rho2 target_fraction t2_vals t1_vals (None, None) of
        Inl e \<Rightarrow> Inl e
      | Inr st \<Rightarrow> Inr (snd st)))))))"

text \<open>A pair of thicknesses meets the target: the test of \<open>mask_ok\<close>.\<close>

abbreviation feasible :: "real \<Rightarrow> real \<Rightarrow> real \<Rightarrow> real \<Rightarrow> real \<Rightarrow> bool" where
  "feasible mu1 mu2 target t1 t2 \<equiv> exp (- mu1 * t1) * exp (- mu2 * t2) \<le> target"

section \<open>The attenuation model\<close>





text \<open>The division by \<open>mu_lin\<close> is not guarded: a coefficient of zero raises nothing.\<close>

theorem required_thickness_zero_mu_counterexample:
  "required_thickness_for_target (Finite 0) (Finite (1 / 2)) = Inr PosInf"
  by (simp add: required_thickness_for_target_def signed_inf_def)

text \<open>
  Claim C5, as the code has it. With a target in \<open>(0, 1)\<close> and the linear coefficient
  \<open>0\<close>, \<open>required_thickness_for_target\<close> raises nothing: the division by zero yields
  the value \<open>+inf\<close>.
\<close>

theorem required_thickness_zero_mu_is_infinite:
  "0 < target \<Longrightarrow> target < 1 \<Longrightarrow>
   required_thickness_for_target (Finite 0) (Finite target) = Inr PosInf"
  by (simp add: required_thickness_for_target_def signed_inf_def)

theorem required_thickness_zero_mu_is_infinite_witness:
  "(0::real) < 1 / 4 \<and> (1::real) / 4 < 1 \<and>
   required_thickness_for_target (Finite 0) (Finite (1 / 4)) = Inr PosInf"
  using required_thickness_zero_mu_is_infinite [of "1 / 4"] by simp

section \<open>The grid search\<close>

lemma mask_select_map: "mask_select (map f xs) (map p xs) = map f (filter p xs)"
  by (induction xs) (auto simp: mask_select_def)

lemma mask_select_filter: "mask_select xs (map p xs) = filter p xs"
  using mask_select_map [of "\<lambda>x. x" xs p] by simp

lemma np_any_map: "np_any (map p xs) \<longleftrightarrow> filter p xs \<noteq> []"
  by (induction xs) (auto simp: np_any_def)

lemma argmin_list_less: "xs \<noteq> [] \<Longrightarrow> argmin_list xs < length xs"
  by (induction xs rule: argmin_list.induct) (auto simp: Let_def)

lemma argmin_list_le: "j < length xs \<Longrightarrow> xs ! argmin_list xs \<le> xs ! j"
proof (induction xs arbitrary: j rule: argmin_list.induct)
  case 1
  then show ?case by simp
next
  case (2 x)
  then show ?case by simp
next
  case (3 x y ys)
  show ?case
  proof (cases j)
    case 0
    then show ?thesis by (auto simp: Let_def)
  next
    case (Suc k)
    with "3.prems" have "k < length (y # ys)" by simp
    from "3.IH" [OF this] have "(y # ys) ! argmin_list (y # ys) \<le> (y # ys) ! k" .
    with Suc show ?thesis by (auto simp: Let_def)
  qed
qed

lemma argmin_list_first: "j < argmin_list xs \<Longrightarrow> xs ! argmin_list xs < xs ! j"
proof (induction xs arbitrary: j rule: argmin_list.induct)
  case 1
  then show ?case by simp
next
  case (2 x)
  then show ?case by simp
next
  case (3 x y ys)
  let ?i = "argmin_list (y # ys)"
  from "3.prems" have nle: "\<not> x \<le> (y # ys) ! ?i" and j: "j < Suc ?i"
    by (auto simp: Let_def split: if_splits)
  show ?case
  proof (cases j)
    case 0
    with nle show ?thesis by (simp add: Let_def)
  next
    case (Suc k)
    with j have "k < ?i" by simp
    from "3.IH" [OF this] Suc nle show ?thesis by (simp add: Let_def)
  qed
qed

lemma row_best_eq:
  "row_best mu1 mu2 rho1 rho2 target t2_vals t1 =
     (let F = filter (feasible mu1 mu2 target t1) t2_vals;
          i = argmin_list (map (\<lambda>t2. rho1 * t1 + rho2 * t2) F)
      in if F = [] then Inr None
         else Inr (Some \<lparr>t1_cm = t1, t2_cm = F ! i,
                         areal_density_g_per_cm2 = rho1 * t1 + rho2 * F ! i,
                         transmission = exp (- mu1 * t1) * exp (- mu2 * F ! i)\<rparr>))"
proof -
  let ?F = "filter (feasible mu1 mu2 target t1) t2_vals"
  let ?i = "argmin_list (map (\<lambda>t2. rho1 * t1 + rho2 * t2) ?F)"
  have m: "map (\<lambda>x. x \<le> target) (map (\<lambda>t2. exp (- mu1 * t1) * exp (- mu2 * t2)) t2_vals)
        = map (feasible mu1 mu2 target t1) t2_vals"
    by simp
  have tt: "map ((*) (exp (- mu1 * t1))) (map (\<lambda>t2. exp (- mu2 * t2)) t2_vals)
        = map (\<lambda>t2. exp (- mu1 * t1) * exp (- mu2 * t2)) t2_vals"
    by simp
  show ?thesis
  proof (cases "?F = []")
    case True
    then show ?thesis
      unfolding row_best_def Let_def tt m by (simp add: np_any_map)
  next
    case False
    then have i: "?i < length ?F"
      using argmin_list_less [of "map (\<lambda>t2. rho1 * t1 + rho2 * t2) ?F"] by simp
    from False i show ?thesis
      unfolding row_best_def Let_def tt m
      by (simp add: np_any_map mask_select_map mask_select_filter np_argmin_def)
  qed
qed


lemma row_best_total: "\<exists>r. row_best mu1 mu2 rho1 rho2 target t2_vals t1 = Inr r"
  by (simp add: row_best_eq Let_def)

lemma row_best_None_iff:
  "row_best mu1 mu2 rho1 rho2 target t2_vals t1 = Inr None \<longleftrightarrow>
     (\<forall>t2\<in>set t2_vals. \<not> feasible mu1 mu2 target t1 t2)"
  by (auto simp: row_best_eq Let_def filter_empty_conv)

lemma row_best_Some:
  assumes "row_best mu1 mu2 rho1 rho2 target t2_vals t1 = Inr (Some d)"
  shows "t1_cm d = t1"
    and "t2_cm d \<in> set t2_vals"
    and "feasible mu1 mu2 target t1 (t2_cm d)"
    and "areal_density_g_per_cm2 d = rho1 * t1 + rho2 * t2_cm d"
    and "transmission d = exp (- mu1 * t1) * exp (- mu2 * t2_cm d)"
    and "\<And>t2. t2 \<in> set t2_vals \<Longrightarrow> feasible mu1 mu2 target t1 t2 \<Longrightarrow>
           areal_density_g_per_cm2 d \<le> rho1 * t1 + rho2 * t2"
    and "\<And>t2. sorted t2_vals \<Longrightarrow> t2 \<in> set t2_vals \<Longrightarrow> feasible mu1 mu2 target t1 t2 \<Longrightarrow>
           rho1 * t1 + rho2 * t2 = areal_density_g_per_cm2 d \<Longrightarrow> t2_cm d \<le> t2"
proof -
  let ?F = "filter (feasible mu1 mu2 target t1) t2_vals"
  let ?A = "map (\<lambda>t2. rho1 * t1 + rho2 * t2) ?F"
  let ?i = "argmin_list ?A"
  from assms have ne: "?F \<noteq> []"
    by (auto simp: row_best_eq Let_def split: if_splits)
  with assms have d: "d = \<lparr>t1_cm = t1, t2_cm = ?F ! ?i,
                         areal_density_g_per_cm2 = rho1 * t1 + rho2 * ?F ! ?i,
                         transmission = exp (- mu1 * t1) * exp (- mu2 * ?F ! ?i)\<rparr>"
    by (simp add: row_best_eq Let_def)
  from ne have i: "?i < length ?F"
    using argmin_list_less [of ?A] by simp
  then have mem: "?F ! ?i \<in> set ?F"
    by (rule nth_mem)
  show "t1_cm d = t1" by (simp add: d)
  show "t2_cm d \<in> set t2_vals" using mem by (simp add: d)
  show "feasible mu1 mu2 target t1 (t2_cm d)" using mem by (simp add: d)
  show "areal_density_g_per_cm2 d = rho1 * t1 + rho2 * t2_cm d" by (simp add: d)
  show "transmission d = exp (- mu1 * t1) * exp (- mu2 * t2_cm d)" by (simp add: d)
  show "areal_density_g_per_cm2 d \<le> rho1 * t1 + rho2 * t2"
    if "t2 \<in> set t2_vals" and "feasible mu1 mu2 target t1 t2" for t2
  proof -
    from that have "t2 \<in> set ?F" by simp
    then obtain j where j: "j < length ?F" and tj: "?F ! j = t2"
      using in_set_conv_nth [of t2 ?F] by blast
    from j have "?A ! ?i \<le> ?A ! j"
      using argmin_list_le [of j ?A] by simp
    with i j tj show ?thesis by (simp add: d)
  qed
  show "t2_cm d \<le> t2"
    if "sorted t2_vals" and "t2 \<in> set t2_vals" and "feasible mu1 mu2 target t1 t2"
      and "rho1 * t1 + rho2 * t2 = areal_density_g_per_cm2 d" for t2
  proof -
    from that have "t2 \<in> set ?F" by simp
    then obtain j where j: "j < length ?F" and tj: "?F ! j = t2"
      using in_set_conv_nth [of t2 ?F] by blast
    have srt: "sorted ?F" using that(1) by (rule sorted_wrt_filter)
    have "\<not> j < ?i"
    proof
      assume "j < ?i"
      then have lt: "?A ! ?i < ?A ! j" by (rule argmin_list_first)
      have ai: "?A ! ?i = areal_density_g_per_cm2 d" using i by (simp add: d)
      have aj: "?A ! j = rho1 * t1 + rho2 * t2" using j tj by simp
      from lt ai aj that(4) show False by linarith
    qed
    then have "?i \<le> j" by simp
    with srt j have "?F ! ?i \<le> ?F ! j" by (simp add: sorted_nth_mono)
    with tj show ?thesis by (simp add: d)
  qed
qed


lemma grid_search_total:
  "\<exists>st'. grid_search mu1 mu2 rho1 rho2 target t2_vals t1s st = Inr st'"
proof (induction t1s arbitrary: st)
  case Nil
  then show ?case by simp
next
  case (Cons t1 rest)
  obtain r where r: "row_best mu1 mu2 rho1 rho2 target t2_vals t1 = Inr r"
    using row_best_total by blast
  show ?case
  proof (cases r)
    case None
    with r Cons.IH [of st] show ?thesis by simp
  next
    case (Some d)
    with r Cons.IH show ?thesis by simp
  qed
qed

lemma grid_search_Cons_None:
  "row_best mu1 mu2 rho1 rho2 target t2_vals t1 = Inr None \<Longrightarrow>
   grid_search mu1 mu2 rho1 rho2 target t2_vals (t1 # rest) st =
   grid_search mu1 mu2 rho1 rho2 target t2_vals rest st"
  by simp

lemma grid_search_Cons_first:
  "row_best mu1 mu2 rho1 rho2 target t2_vals t1 = Inr (Some r) \<Longrightarrow>
   grid_search mu1 mu2 rho1 rho2 target t2_vals (t1 # rest) (None, None) =
   grid_search mu1 mu2 rho1 rho2 target t2_vals rest (Some (areal_density_g_per_cm2 r), Some r)"
  by simp

lemma grid_search_Cons_better:
  "row_best mu1 mu2 rho1 rho2 target t2_vals t1 = Inr (Some r) \<Longrightarrow>
   areal_density_g_per_cm2 r < areal_density_g_per_cm2 d0 \<Longrightarrow>
   grid_search mu1 mu2 rho1 rho2 target t2_vals (t1 # rest) (Some (areal_density_g_per_cm2 d0), Some d0) =
   grid_search mu1 mu2 rho1 rho2 target t2_vals rest (Some (areal_density_g_per_cm2 r), Some r)"
  by simp

lemma grid_search_Cons_keep:
  "row_best mu1 mu2 rho1 rho2 target t2_vals t1 = Inr (Some r) \<Longrightarrow>
   \<not> areal_density_g_per_cm2 r < areal_density_g_per_cm2 d0 \<Longrightarrow>
   grid_search mu1 mu2 rho1 rho2 target t2_vals (t1 # rest) (Some (areal_density_g_per_cm2 d0), Some d0) =
   grid_search mu1 mu2 rho1 rho2 target t2_vals rest (Some (areal_density_g_per_cm2 d0), Some d0)"
  by simp

text \<open>From a state that holds a design, the loop ends with a design that is no heavier,
  is that design or a row's best, and is no heavier than any row's best.\<close>

lemma grid_search_from_Some:
  assumes "grid_search mu1 mu2 rho1 rho2 target t2_vals t1s
             (Some (areal_density_g_per_cm2 d0), Some d0) = Inr st'"
  shows "\<exists>d. st' = (Some (areal_density_g_per_cm2 d), Some d)
           \<and> areal_density_g_per_cm2 d \<le> areal_density_g_per_cm2 d0
           \<and> (areal_density_g_per_cm2 d = areal_density_g_per_cm2 d0 \<longrightarrow> d = d0)
           \<and> (d = d0 \<or> (\<exists>t1\<in>set t1s. row_best mu1 mu2 rho1 rho2 target t2_vals t1 = Inr (Some d)))
           \<and> (\<forall>t1\<in>set t1s. \<forall>r. row_best mu1 mu2 rho1 rho2 target t2_vals t1 = Inr (Some r)
                  \<longrightarrow> areal_density_g_per_cm2 d \<le> areal_density_g_per_cm2 r)"
  using assms
proof (induction t1s arbitrary: d0)
  case Nil
  then show ?case by auto
next
  case (Cons t1 rest)
  obtain r where r: "row_best mu1 mu2 rho1 rho2 target t2_vals t1 = Inr r"
    using row_best_total by blast
  show ?case
  proof (cases r)
    case None
    with r Cons.prems have "grid_search mu1 mu2 rho1 rho2 target t2_vals rest
             (Some (areal_density_g_per_cm2 d0), Some d0) = Inr st'"
      by simp
    from Cons.IH [OF this] r None show ?thesis by auto
  next
    case (Some d1)
    note r1 = r [unfolded Some]
    show ?thesis
    proof (cases "areal_density_g_per_cm2 d1 < areal_density_g_per_cm2 d0")
      case True
      with r1 Cons.prems have "grid_search mu1 mu2 rho1 rho2 target t2_vals rest
             (Some (areal_density_g_per_cm2 d1), Some d1) = Inr st'"
        by simp
      from Cons.IH [OF this] obtain d where
        d: "st' = (Some (areal_density_g_per_cm2 d), Some d)"
        and le: "areal_density_g_per_cm2 d \<le> areal_density_g_per_cm2 d1"
        and mem: "d = d1 \<or> (\<exists>t1\<in>set rest. row_best mu1 mu2 rho1 rho2 target t2_vals t1 = Inr (Some d))"
        and mn: "\<forall>t1\<in>set rest. \<forall>r. row_best mu1 mu2 rho1 rho2 target t2_vals t1 = Inr (Some r)
                  \<longrightarrow> areal_density_g_per_cm2 d \<le> areal_density_g_per_cm2 r"
        by blast
      from le True have lt: "areal_density_g_per_cm2 d < areal_density_g_per_cm2 d0" by simp
      have m2: "\<exists>t1\<in>set (t1 # rest). row_best mu1 mu2 rho1 rho2 target t2_vals t1 = Inr (Some d)"
        using mem r1 by auto
      have mn2: "\<forall>t\<in>set (t1 # rest). \<forall>r. row_best mu1 mu2 rho1 rho2 target t2_vals t = Inr (Some r)
                  \<longrightarrow> areal_density_g_per_cm2 d \<le> areal_density_g_per_cm2 r"
        using mn le r1 by auto
      from d lt m2 mn2 show ?thesis by auto
    next
      case False
      with r1 Cons.prems have "grid_search mu1 mu2 rho1 rho2 target t2_vals rest
             (Some (areal_density_g_per_cm2 d0), Some d0) = Inr st'"
        by simp
      from Cons.IH [OF this] obtain d where
        d: "st' = (Some (areal_density_g_per_cm2 d), Some d)"
        and le: "areal_density_g_per_cm2 d \<le> areal_density_g_per_cm2 d0"
        and eq: "areal_density_g_per_cm2 d = areal_density_g_per_cm2 d0 \<longrightarrow> d = d0"
        and mem: "d = d0 \<or> (\<exists>t1\<in>set rest. row_best mu1 mu2 rho1 rho2 target t2_vals t1 = Inr (Some d))"
        and mn: "\<forall>t1\<in>set rest. \<forall>r. row_best mu1 mu2 rho1 rho2 target t2_vals t1 = Inr (Some r)
                  \<longrightarrow> areal_density_g_per_cm2 d \<le> areal_density_g_per_cm2 r"
        by blast
      have mn2: "\<forall>t\<in>set (t1 # rest). \<forall>r. row_best mu1 mu2 rho1 rho2 target t2_vals t = Inr (Some r)
                  \<longrightarrow> areal_density_g_per_cm2 d \<le> areal_density_g_per_cm2 r"
        using mn le r1 False by auto
      from d le eq mem mn2 show ?thesis by auto
    qed
  qed
qed


lemma grid_search_from_None:
  assumes "grid_search mu1 mu2 rho1 rho2 target t2_vals t1s (None, None) = Inr st'"
  shows "(st' = (None, None)
            \<and> (\<forall>t1\<in>set t1s. row_best mu1 mu2 rho1 rho2 target t2_vals t1 = Inr None))
         \<or> (\<exists>d. st' = (Some (areal_density_g_per_cm2 d), Some d)
              \<and> (\<exists>t1\<in>set t1s. row_best mu1 mu2 rho1 rho2 target t2_vals t1 = Inr (Some d))
              \<and> (\<forall>t1\<in>set t1s. \<forall>r. row_best mu1 mu2 rho1 rho2 target t2_vals t1 = Inr (Some r)
                     \<longrightarrow> areal_density_g_per_cm2 d \<le> areal_density_g_per_cm2 r))"
  using assms
proof (induction t1s)
  case Nil
  then show ?case by auto
next
  case (Cons t1 rest)
  obtain r where r: "row_best mu1 mu2 rho1 rho2 target t2_vals t1 = Inr r"
    using row_best_total by blast
  show ?case
  proof (cases r)
    case None
    with r Cons.prems have "grid_search mu1 mu2 rho1 rho2 target t2_vals rest (None, None) = Inr st'"
      by simp
    from Cons.IH [OF this] r None show ?thesis by auto
  next
    case (Some d1)
    note r1 = r [unfolded Some]
    with Cons.prems have "grid_search mu1 mu2 rho1 rho2 target t2_vals rest
             (Some (areal_density_g_per_cm2 d1), Some d1) = Inr st'"
      by simp
    from grid_search_from_Some [OF this] obtain d where
      d: "st' = (Some (areal_density_g_per_cm2 d), Some d)"
      and le: "areal_density_g_per_cm2 d \<le> areal_density_g_per_cm2 d1"
      and mem: "d = d1 \<or> (\<exists>t1\<in>set rest. row_best mu1 mu2 rho1 rho2 target t2_vals t1 = Inr (Some d))"
      and mn: "\<forall>t1\<in>set rest. \<forall>r. row_best mu1 mu2 rho1 rho2 target t2_vals t1 = Inr (Some r)
                \<longrightarrow> areal_density_g_per_cm2 d \<le> areal_density_g_per_cm2 r"
      by blast
    have m2: "\<exists>t\<in>set (t1 # rest). row_best mu1 mu2 rho1 rho2 target t2_vals t = Inr (Some d)"
      using mem r1 by auto
    have mn2: "\<forall>t\<in>set (t1 # rest). \<forall>r. row_best mu1 mu2 rho1 rho2 target t2_vals t = Inr (Some r)
                \<longrightarrow> areal_density_g_per_cm2 d \<le> areal_density_g_per_cm2 r"
      using mn le r1 by auto
    from d m2 mn2 show ?thesis by blast
  qed
qed

text \<open>Ties between rows: on an ascending grid the loop keeps the row met first.\<close>

lemma grid_search_first_from_Some:
  assumes "grid_search mu1 mu2 rho1 rho2 target t2_vals t1s
             (Some (areal_density_g_per_cm2 d0), Some d0) = Inr (b, Some d)"
    and "sorted t1s"
    and "\<forall>t1\<in>set t1s. t1_cm d0 \<le> t1"
    and "t \<in> set t1s"
    and "row_best mu1 mu2 rho1 rho2 target t2_vals t = Inr (Some r)"
    and "areal_density_g_per_cm2 r = areal_density_g_per_cm2 d"
  shows "t1_cm d \<le> t"
  using assms
proof (induction t1s arbitrary: d0)
  case Nil
  then show ?case by simp
next
  case (Cons t1 rest)
  obtain r1 where r1: "row_best mu1 mu2 rho1 rho2 target t2_vals t1 = Inr r1"
    using row_best_total by blast
  define d1 where "d1 = (case r1 of None \<Rightarrow> d0
     | Some x \<Rightarrow> if areal_density_g_per_cm2 x < areal_density_g_per_cm2 d0 then x else d0)"
  have run: "grid_search mu1 mu2 rho1 rho2 target t2_vals rest
               (Some (areal_density_g_per_cm2 d1), Some d1) = Inr (b, Some d)"
    using Cons.prems(1) r1 by (auto simp: d1_def split: option.splits if_splits)
  have srt: "sorted rest" and hd: "\<forall>x\<in>set rest. t1 \<le> x"
    using Cons.prems(2) by auto
  have d1_t1: "t1_cm d1 \<le> t1"
  proof (cases r1)
    case None
    with Cons.prems(3) show ?thesis by (simp add: d1_def)
  next
    case (Some x)
    with r1 have "t1_cm x = t1" by (auto dest: row_best_Some(1))
    with Some Cons.prems(3) show ?thesis by (simp add: d1_def)
  qed
  with hd have bound: "\<forall>x\<in>set rest. t1_cm d1 \<le> x" by auto
  from grid_search_from_Some [OF run] have
    le: "areal_density_g_per_cm2 d \<le> areal_density_g_per_cm2 d1"
    and eq: "areal_density_g_per_cm2 d = areal_density_g_per_cm2 d1 \<longrightarrow> d = d1"
    by auto
  show ?case
  proof (cases "t \<in> set rest")
    case True
    from Cons.IH [OF run srt bound True Cons.prems(5) Cons.prems(6)] show ?thesis .
  next
    case False
    with Cons.prems(4) have t: "t = t1" by simp
    with r1 Cons.prems(5) have r1': "r1 = Some r" by simp
    have "areal_density_g_per_cm2 d1 \<le> areal_density_g_per_cm2 r"
      using r1' by (simp add: d1_def)
    with le Cons.prems(6) have "areal_density_g_per_cm2 d = areal_density_g_per_cm2 d1"
      by simp
    with eq have "d = d1" by simp
    with d1_t1 t show ?thesis by simp
  qed
qed

lemma grid_search_first_from_None:
  assumes "grid_search mu1 mu2 rho1 rho2 target t2_vals t1s (None, None) = Inr (b, Some d)"
    and "sorted t1s"
    and "t \<in> set t1s"
    and "row_best mu1 mu2 rho1 rho2 target t2_vals t = Inr (Some r)"
    and "areal_density_g_per_cm2 r = areal_density_g_per_cm2 d"
  shows "t1_cm d \<le> t"
  using assms
proof (induction t1s)
  case Nil
  then show ?case by simp
next
  case (Cons t1 rest)
  obtain r1 where r1: "row_best mu1 mu2 rho1 rho2 target t2_vals t1 = Inr r1"
    using row_best_total by blast
  have srt: "sorted rest" and hd: "\<forall>x\<in>set rest. t1 \<le> x"
    using Cons.prems(2) by auto
  show ?case
  proof (cases r1)
    case None
    with r1 Cons.prems(1) have run: "grid_search mu1 mu2 rho1 rho2 target t2_vals rest (None, None)
        = Inr (b, Some d)" by simp
    from None r1 Cons.prems(3,4) have "t \<in> set rest" by auto
    from Cons.IH [OF run srt this Cons.prems(4) Cons.prems(5)] show ?thesis .
  next
    case (Some d1)
    with r1 Cons.prems(1) have run: "grid_search mu1 mu2 rho1 rho2 target t2_vals rest
        (Some (areal_density_g_per_cm2 d1), Some d1) = Inr (b, Some d)" by simp
    from Some r1 have t1: "t1_cm d1 = t1" by (auto dest: row_best_Some(1))
    with hd have bound: "\<forall>x\<in>set rest. t1_cm d1 \<le> x" by simp
    show ?thesis
    proof (cases "t \<in> set rest")
      case True
      from grid_search_first_from_Some [OF run srt bound True Cons.prems(4) Cons.prems(5)]
      show ?thesis .
    next
      case False
      with Cons.prems(3) have t: "t = t1" by simp
      with r1 Some Cons.prems(4) have "d1 = r" by simp
      with Cons.prems(5) grid_search_from_Some [OF run] have "d = d1" by auto
      with t1 t show ?thesis by simp
    qed
  qed
qed


lemma linspace_error:
  "(\<exists>e. linspace start stop num = Inl e) \<longleftrightarrow> num < 0"
  by (simp add: linspace_def Let_def)





lemma optimize_two_materials_run:
  assumes "mu_lin_from mat1 = Inr mu1" and "mu_lin_from mat2 = Inr mu2"
    and "linspace 0 max1 steps1 = Inr g1" and "linspace 0 max2 steps2 = Inr g2"
  shows "\<exists>st'. grid_search mu1 mu2 (dict_get mat1 ''density'' 1) (dict_get mat2 ''density'' 1)
                 target g2 g1 (None, None) = Inr st'
           \<and> optimize_two_materials mat1 mat2 target max1 max2 steps1 steps2 = Inr (snd st')"
proof -
  obtain st' where "grid_search mu1 mu2 (dict_get mat1 ''density'' 1) (dict_get mat2 ''density'' 1)
                 target g2 g1 (None, None) = Inr st'"
    using grid_search_total by blast
  with assms show ?thesis
    by (simp add: optimize_two_materials_def)
qed

lemma optimize_two_materials_error:
  "(\<exists>e. optimize_two_materials mat1 mat2 target max1 max2 steps1 steps2 = Inl e) \<longleftrightarrow>
     (\<exists>e. mu_lin_from mat1 = Inl e) \<or> (\<exists>e. mu_lin_from mat2 = Inl e) \<or> steps1 < 0 \<or> steps2 < 0"
proof (cases "(\<exists>e. mu_lin_from mat1 = Inl e) \<or> (\<exists>e. mu_lin_from mat2 = Inl e) \<or> steps1 < 0 \<or> steps2 < 0")
  case True
  then show ?thesis
    by (auto simp: optimize_two_materials_def linspace_def Let_def split: sum.splits)
next
  case False
  then obtain mu1 mu2 where "mu_lin_from mat1 = Inr mu1" "mu_lin_from mat2 = Inr mu2"
    by (metis sum.exhaust)
  moreover from False obtain g1 g2 where "linspace 0 max1 steps1 = Inr g1" "linspace 0 max2 steps2 = Inr g2"
    by (metis linspace_error sum.exhaust)
  ultimately have "\<exists>r. optimize_two_materials mat1 mat2 target max1 max2 steps1 steps2 = Inr r"
    using optimize_two_materials_run by blast
  with False show ?thesis by auto
qed



lemma optimize_two_materials_Some:
  assumes mats: "mu_lin_from mat1 = Inr mu1" "mu_lin_from mat2 = Inr mu2"
    and grids: "linspace 0 max1 steps1 = Inr g1" "linspace 0 max2 steps2 = Inr g2"
    and rho: "rho1 = dict_get mat1 ''density'' 1" "rho2 = dict_get mat2 ''density'' 1"
    and d: "optimize_two_materials mat1 mat2 target max1 max2 steps1 steps2 = Inr (Some d)"
  shows "t1_cm d \<in> set g1"
    and "t2_cm d \<in> set g2"
    and "feasible mu1 mu2 target (t1_cm d) (t2_cm d)"
    and "areal_density_g_per_cm2 d = rho1 * t1_cm d + rho2 * t2_cm d"
    and "transmission d = exp (- mu1 * t1_cm d) * exp (- mu2 * t2_cm d)"
    and "\<And>t1 t2. t1 \<in> set g1 \<Longrightarrow> t2 \<in> set g2 \<Longrightarrow> feasible mu1 mu2 target t1 t2 \<Longrightarrow>
           areal_density_g_per_cm2 d \<le> rho1 * t1 + rho2 * t2"
    and "\<And>t1 t2. sorted g1 \<Longrightarrow> sorted g2 \<Longrightarrow> t1 \<in> set g1 \<Longrightarrow> t2 \<in> set g2 \<Longrightarrow>
           feasible mu1 mu2 target t1 t2 \<Longrightarrow> rho1 * t1 + rho2 * t2 = areal_density_g_per_cm2 d \<Longrightarrow>
           t1_cm d \<le> t1 \<and> (t1 = t1_cm d \<longrightarrow> t2_cm d \<le> t2)"
proof -
  from optimize_two_materials_run [OF mats grids] d rho obtain b where
    run: "grid_search mu1 mu2 rho1 rho2 target g2 g1 (None, None) = Inr (b, Some d)"
    by (metis prod.collapse sum.inject(2))
  from grid_search_from_None [OF run] obtain t where
    t: "t \<in> set g1" and row: "row_best mu1 mu2 rho1 rho2 target g2 t = Inr (Some d)"
    and mn: "\<And>t1 r. t1 \<in> set g1 \<Longrightarrow> row_best mu1 mu2 rho1 rho2 target g2 t1 = Inr (Some r)
               \<Longrightarrow> areal_density_g_per_cm2 d \<le> areal_density_g_per_cm2 r"
    by auto
  note rb = row_best_Some [OF row]
  show "t1_cm d \<in> set g1" using t rb(1) by simp
  show "t2_cm d \<in> set g2" by (rule rb(2))
  show "feasible mu1 mu2 target (t1_cm d) (t2_cm d)" using rb(3) rb(1) by simp
  show "areal_density_g_per_cm2 d = rho1 * t1_cm d + rho2 * t2_cm d" using rb(4) rb(1) by simp
  show "transmission d = exp (- mu1 * t1_cm d) * exp (- mu2 * t2_cm d)" using rb(5) rb(1) by simp
  have row_of: "\<exists>r. row_best mu1 mu2 rho1 rho2 target g2 t1 = Inr (Some r)"
    if "t2 \<in> set g2" and "feasible mu1 mu2 target t1 t2" for t1 t2
  proof -
    obtain r where r: "row_best mu1 mu2 rho1 rho2 target g2 t1 = Inr r"
      using row_best_total by blast
    with that have "r \<noteq> None" using row_best_None_iff [of mu1 mu2 rho1 rho2 target g2 t1] by auto
    with r show ?thesis by auto
  qed
  show "areal_density_g_per_cm2 d \<le> rho1 * t1 + rho2 * t2"
    if "t1 \<in> set g1" and "t2 \<in> set g2" and "feasible mu1 mu2 target t1 t2" for t1 t2
  proof -
    from row_of [OF that(2,3)] obtain r where
      r: "row_best mu1 mu2 rho1 rho2 target g2 t1 = Inr (Some r)" by blast
    from mn [OF that(1) r] row_best_Some(6) [OF r that(2,3)] show ?thesis by simp
  qed
  show "t1_cm d \<le> t1 \<and> (t1 = t1_cm d \<longrightarrow> t2_cm d \<le> t2)"
    if "sorted g1" and "sorted g2" and "t1 \<in> set g1" and "t2 \<in> set g2"
      and "feasible mu1 mu2 target t1 t2" and "rho1 * t1 + rho2 * t2 = areal_density_g_per_cm2 d"
    for t1 t2
  proof
    from row_of [OF that(4,5)] obtain r where
      r: "row_best mu1 mu2 rho1 rho2 target g2 t1 = Inr (Some r)" by blast
    from mn [OF that(3) r] row_best_Some(6) [OF r that(4,5)] that(6)
    have "areal_density_g_per_cm2 r = areal_density_g_per_cm2 d" by simp
    from grid_search_first_from_None [OF run that(1,3) r this]
    show "t1_cm d \<le> t1" .
    show "t1 = t1_cm d \<longrightarrow> t2_cm d \<le> t2"
    proof
      assume "t1 = t1_cm d"
      with rb(1) have "t1 = t" by simp
      with that(5,6) have "feasible mu1 mu2 target t t2"
        and "rho1 * t + rho2 * t2 = areal_density_g_per_cm2 d" by simp_all
      from rb(7) [OF that(2,4) this] show "t2_cm d \<le> t2" .
    qed
  qed
qed

section \<open>A concrete run: two layers of water\<close>

lemma exp_neg_le_half: "17 / 20 \<le> x \<Longrightarrow> exp (- x) \<le> 1 / 2" for x :: real
proof -
  assume x: "17 / 20 \<le> x"
  have "(2::real) \<le> 1 + 17 / 20 + (17 / 20)\<^sup>2 / 2"
    by (simp add: power2_eq_square)
  also have "\<dots> \<le> exp (17 / 20)"
    by (rule exp_lower_Taylor_quadratic) simp
  also have "\<dots> \<le> exp x"
    using x by simp
  finally have "2 \<le> exp x" .
  then have "inverse (exp x) \<le> inverse 2"
    by (intro le_imp_inverse_le) simp_all
  then show ?thesis
    by (simp add: exp_minus)
qed


lemma mu_lin_from_water: "mu_lin_from water = Inr (17 / 500)"
  by (simp add: mu_lin_from_def water_def dict_item_def linear_mu_from_mass_def)

lemma density_water: "dict_get water ''density'' 1 = 1"
  by (simp add: dict_get_def water_def)

lemma linspace_50_3: "linspace 0 50 3 = Inr [0, 25, 50]"
  by (simp add: linspace_def Let_def upt_rec numeral_3_eq_3)


lemma linspace_0_1: "linspace 0 0 1 = Inr [0]"
  by (simp add: linspace_def Let_def)


lemma water_row_0: "row_best (17 / 500) (17 / 500) 1 1 (1 / 2) [0] 0 = Inr None"
  by (simp add: row_best_eq)

lemma water_row_25:
  "row_best (17 / 500) (17 / 500) 1 1 (1 / 2) [0] 25 =
     Inr (Some \<lparr>t1_cm = 25, t2_cm = 0, areal_density_g_per_cm2 = 25,
                 transmission = exp (- (17 / 20))\<rparr>)"
  using exp_neg_le_half [of "17 / 20"] by (simp add: row_best_eq)

lemma water_row_50:
  "row_best (17 / 500) (17 / 500) 1 1 (1 / 2) [0] 50 =
     Inr (Some \<lparr>t1_cm = 50, t2_cm = 0, areal_density_g_per_cm2 = 50,
                 transmission = exp (- (17 / 10))\<rparr>)"
  using exp_neg_le_half [of "17 / 10"] by (simp add: row_best_eq)



lemma optimize_water_coarse:
  "optimize_two_materials water water (1 / 2) 50 0 3 1 =
     Inr (Some \<lparr>t1_cm = 25, t2_cm = 0, areal_density_g_per_cm2 = 25,
                 transmission = exp (- (17 / 20))\<rparr>)"
  by (simp add: optimize_two_materials_def mu_lin_from_water density_water linspace_50_3
        linspace_0_1 water_row_0 water_row_25 water_row_50)


lemma optimize_two_materials_inputs:
  assumes "optimize_two_materials mat1 mat2 target max1 max2 steps1 steps2 = Inr r"
  shows "\<exists>mu1 mu2 g1 g2. mu_lin_from mat1 = Inr mu1 \<and> mu_lin_from mat2 = Inr mu2
           \<and> linspace 0 max1 steps1 = Inr g1 \<and> linspace 0 max2 steps2 = Inr g2"
  using assms
  by (auto simp: optimize_two_materials_def Let_def split: sum.splits)

section \<open>Properties of the optimizer\<close>

text \<open>
  Claim C1. When \<open>optimize_two_materials\<close> returns a design, its two thicknesses are
  points of the two grids, its transmission is the product of the two exponentials at those
  thicknesses and is at most the target, its areal density is
  \<open>density1 * t1 + density2 * t2\<close>, and no pair of grid points whose combined transmission
  is at most the target has a smaller areal density.
\<close>

theorem optimize_two_materials_feasible_minimal:
  assumes "optimize_two_materials mat1 mat2 target max1 max2 steps1 steps2 = Inr (Some d)"
  shows "\<exists>mu1 mu2 g1 g2.
           mu_lin_from mat1 = Inr mu1 \<and> mu_lin_from mat2 = Inr mu2
         \<and> linspace 0 max1 steps1 = Inr g1 \<and> linspace 0 max2 steps2 = Inr g2
         \<and> t1_cm d \<in> set g1 \<and> t2_cm d \<in> set g2
         \<and> transmission d = exp (- mu1 * t1_cm d) * exp (- mu2 * t2_cm d)
         \<and> transmission d \<le> target
         \<and> areal_density_g_per_cm2 d =
             dict_get mat1 ''density'' 1 * t1_cm d + dict_get mat2 ''density'' 1 * t2_cm d
         \<and> (\<forall>t1\<in>set g1. \<forall>t2\<in>set g2.
               exp (- mu1 * t1) * exp (- mu2 * t2) \<le> target \<longrightarrow>
               areal_density_g_per_cm2 d \<le>
                 dict_get mat1 ''density'' 1 * t1 + dict_get mat2 ''density'' 1 * t2)"
proof -
  from optimize_two_materials_inputs [OF assms] obtain mu1 mu2 g1 g2 where
    inp: "mu_lin_from mat1 = Inr mu1" "mu_lin_from mat2 = Inr mu2"
      "linspace 0 max1 steps1 = Inr g1" "linspace 0 max2 steps2 = Inr g2"
    by blast
  note p = optimize_two_materials_Some [OF inp refl refl assms]
  have "transmission d \<le> target"
    using p(3) p(5) by simp
  with inp p(1,2,4,5) p(6) show ?thesis
    by blast
qed

theorem optimize_two_materials_feasible_minimal_witness:
  "optimize_two_materials water water (1 / 2) 50 0 3 1 =
     Inr (Some \<lparr>t1_cm = 25, t2_cm = 0, areal_density_g_per_cm2 = 25,
                 transmission = exp (- (17 / 20))\<rparr>)
   \<and> exp (- (17 / 20)) \<le> (1 / 2 :: real)"
proof -
  let ?d = "\<lparr>t1_cm = 25, t2_cm = 0, areal_density_g_per_cm2 = 25,
             transmission = exp (- (17 / 20))\<rparr>"
  from optimize_two_materials_feasible_minimal [OF optimize_water_coarse]
  have "transmission ?d \<le> 1 / 2" by blast
  with optimize_water_coarse show ?thesis by simp
qed
















section \<open>Validation of the target\<close>





section \<open>The single-material solver\<close>

lemma np_mul_one: "np_mul (Finite 1) x = x"
  by (cases x) (simp_all add: signed_inf_def)



section \<open>The Monte Carlo validator\<close>

text \<open>Zero samples are accepted: the quotient \<open>0 / 0\<close> is NaN and nothing is raised.\<close>

theorem mc_transmission_zero_samples_counterexample:
  "mc_transmission half_stream 1 1 0 None = Inr (NaN, NaN)"
  by (simp add: mc_transmission_def np_random_random_def signed_inf_def)

text \<open>
  Claim C9, as the code has it. \<open>mc_transmission\<close> raises exactly when the sample count
  is negative or a given seed is outside 32 bits; it validates neither a sample count of
  zero, which gives NaN for both results, nor the linear coefficient.
\<close>

theorem mc_transmission_errors:
  "((\<exists>e. mc_transmission rand mu_lin thickness N seed = Inl e) \<longleftrightarrow>
      (N < 0 \<or> (case seed of None \<Rightarrow> False | Some sd \<Rightarrow> sd < 0 \<or> 2 ^ 32 \<le> sd)))
   \<and> mc_transmission rand mu_lin thickness 0 None = Inr (NaN, NaN)"
  by (auto simp: mc_transmission_def np_random_seed_def np_random_random_def Let_def
        signed_inf_def split: option.splits sum.splits)

section \<open>Materials without a density\<close>

lemma optimize_two_materials_areal:
  assumes "optimize_two_materials mat1 mat2 target max1 max2 steps1 steps2 = Inr (Some d)"
  shows "areal_density_g_per_cm2 d =
           dict_get mat1 ''density'' 1 * t1_cm d + dict_get mat2 ''density'' 1 * t2_cm d"
proof -
  from optimize_two_materials_inputs [OF assms] obtain mu1 mu2 g1 g2 where
    inp: "mu_lin_from mat1 = Inr mu1" "mu_lin_from mat2 = Inr mu2"
      "linspace 0 max1 steps1 = Inr g1" "linspace 0 max2 steps2 = Inr g2"
    by blast
  from optimize_two_materials_Some(4) [OF inp refl refl assms] show ?thesis .
qed

lemma mu_lin_from_given: "mat ''mu_lin'' = Some mu \<Longrightarrow> mu_lin_from mat = Inr mu"
  by (simp add: mu_lin_from_def dict_item_def)

text \<open>
  Claim C10. A material that gives \<open>mu_lin\<close> and no density raises nothing in either
  solver, which then count its density as \<open>1.0\<close>: the single-material solver returns its
  thickness as the areal density whenever the target is positive, the optimizer raises
  only for the other material's keys or a negative step count, and in a returned design
  the layer of this material weighs its thickness.
\<close>

theorem missing_density_defaults_to_one:
  assumes "mat ''mu_lin'' = Some mu" and "mat ''density'' = None"
  shows "(0 < target \<longrightarrow>
            (\<exists>thickness tr. single_material_solution mat target = Inr (thickness, thickness, tr)))
       \<and> ((\<exists>e. optimize_two_materials mat mat2 target max1 max2 steps1 steps2 = Inl e) \<longleftrightarrow>
            (\<exists>e. mu_lin_from mat2 = Inl e) \<or> steps1 < 0 \<or> steps2 < 0)
       \<and> ((\<exists>e. optimize_two_materials mat2 mat target max1 max2 steps1 steps2 = Inl e) \<longleftrightarrow>
            (\<exists>e. mu_lin_from mat2 = Inl e) \<or> steps1 < 0 \<or> steps2 < 0)
       \<and> (\<forall>d. optimize_two_materials mat mat2 target max1 max2 steps1 steps2 = Inr (Some d) \<longrightarrow>
              areal_density_g_per_cm2 d = t1_cm d + dict_get mat2 ''density'' 1 * t2_cm d)
       \<and> (\<forall>d. optimize_two_materials mat2 mat target max1 max2 steps1 steps2 = Inr (Some d) \<longrightarrow>
              areal_density_g_per_cm2 d = dict_get mat2 ''density'' 1 * t1_cm d + t2_cm d)
       \<and> (\<forall>d. optimize_two_materials mat mat target max1 max2 steps1 steps2 = Inr (Some d) \<longrightarrow>
              areal_density_g_per_cm2 d = t1_cm d + t2_cm d)"
proof -
  have mu: "mu_lin_from mat = Inr mu"
    using assms(1) by (rule mu_lin_from_given)
  have rho: "dict_get mat ''density'' 1 = 1"
    using assms(2) by (simp add: dict_get_def)
  have single: "\<exists>thickness tr. single_material_solution mat target = Inr (thickness, thickness, tr)"
    if "0 < target"
    using that assms
    by (simp add: single_material_solution_def required_thickness_for_target_def rho np_mul_one)
  have e1: "(\<exists>e. optimize_two_materials mat mat2 target max1 max2 steps1 steps2 = Inl e) \<longleftrightarrow>
            (\<exists>e. mu_lin_from mat2 = Inl e) \<or> steps1 < 0 \<or> steps2 < 0"
    by (simp add: optimize_two_materials_error mu)
  have e2: "(\<exists>e. optimize_two_materials mat2 mat target max1 max2 steps1 steps2 = Inl e) \<longleftrightarrow>
            (\<exists>e. mu_lin_from mat2 = Inl e) \<or> steps1 < 0 \<or> steps2 < 0"
    by (simp add: optimize_two_materials_error mu)
  have a: "areal_density_g_per_cm2 d =
             dict_get m1 ''density'' 1 * t1_cm d + dict_get m2 ''density'' 1 * t2_cm d"
    if "optimize_two_materials m1 m2 target max1 max2 steps1 steps2 = Inr (Some d)" for m1 m2 d
    using that by (rule optimize_two_materials_areal)
  from single e1 e2 a [of mat mat2] a [of mat2 mat] a [of mat mat] show ?thesis
    by (simp add: rho)
qed


theorem missing_density_defaults_to_one_witness:
  "(\<exists>thickness tr. single_material_solution [''mu_lin'' \<mapsto> 0.12] (1 / 2) =
       Inr (thickness, thickness, tr))
   \<and> \<not> (\<exists>e. optimize_two_materials [''mu_lin'' \<mapsto> 0.12] water (1 / 2) 50 0 3 1 = Inl e)"
  using missing_density_defaults_to_one
    [of "[''mu_lin'' \<mapsto> 0.12]" "0.12" "1 / 2" water 50 0 3 1]
  by (simp add: mu_lin_from_water)

end
